theory Spec2Isabelle
  imports Main
begin

section \<open>Python values\<close>

text \<open>
  A Python \<open>str\<close> is a sequence of Unicode code points, so it is modelled as a list of
  natural numbers: slicing (\<open>s[2:]\<close>), indexing (\<open>s[0]\<close>) and \<open>len\<close> count code points,
  as Python does. \<open>asc\<close> turns an ASCII literal into such a string.
\<close>

type_synonym pystr = "nat list"

definition asc :: "string \<Rightarrow> pystr" where
  "asc s = map of_char s"

abbreviation NL :: nat where
  "NL \<equiv> 10"

text \<open>The exceptions the modelled code can raise.\<close>

datatype error = IndexError | ValueError

text \<open>
  The values the \<open>execution_count\<close> attribute holds in this repository: an integer (from a
  notebook file), \<open>None\<close>, or a string (the percent-format loader stores one).
\<close>

datatype pyval = PyNone | PyInt int | PyStr pystr

text \<open>
  The \<open>source\<close> attribute is a list of strings everywhere except after
  \<open>Markdownizer.markdownize\<close>, which stores a single string. \<open>elems\<close> is what
  iterating over the attribute (or indexing it) yields: the list's elements, or the
  string's characters as one-character strings.
\<close>

datatype pysource = SrcList "pystr list" | SrcStr pystr

fun elems :: "pysource \<Rightarrow> pystr list" where
  "elems (SrcList ls) = ls"
| "elems (SrcStr s) = map (\<lambda>c. [c]) s"

text \<open>\<open>sep.join(xs)\<close>\<close>

fun join :: "pystr \<Rightarrow> pystr list \<Rightarrow> pystr" where
  "join sep [] = []"
| "join sep [x] = x"
| "join sep (x # y # ys) = x @ sep @ join sep (y # ys)"

text \<open>\<open>data.split('\n')\<close>: a left-to-right scan that closes the current piece at each newline.\<close>

fun split_from :: "pystr \<Rightarrow> pystr \<Rightarrow> pystr list" where
  "split_from cur [] = [cur]"
| "split_from cur (c # cs) =
     (if c = NL then cur # split_from [] cs else split_from (cur @ [c]) cs)"

definition py_split :: "pystr \<Rightarrow> pystr list" where
  "py_split data = split_from [] data"

section \<open>notebook_v2: cells and notebooks\<close>

text \<open>
  \<open>Cell\<close>, \<open>CodeCell\<close> and \<open>MarkdownCell\<close> define no \<open>__eq__\<close>, so \<open>==\<close> on cells is object
  identity. Each cell therefore carries the address \<open>obj\<close> of its object; two entries of a
  cell list are the same object exactly when their addresses agree. A constructor call
  allocates a new object: functions that construct cells take the first unused address
  and count upwards.
\<close>

type_synonym addr = nat

datatype cell =
    is_MarkdownCell: MarkdownCell (obj: addr) (cell_id: pystr) (source: pysource)
  | is_CodeCell: CodeCell (obj: addr) (cell_id: pystr) (source: pysource) (execution_count: pyval)

datatype notebook = Notebook (version: pystr) (cells: "cell list")

subsection \<open>MarkdownLesser.remove_markdown_cells\<close>

text \<open>The \<open>for\<close> loop: \<open>todo\<close> are the cells still to visit, \<open>acc\<close> is the list \<open>cells\<close> built so far.\<close>

fun remove_markdown_cells_loop :: "cell list \<Rightarrow> cell list \<Rightarrow> cell list" where
  "remove_markdown_cells_loop [] acc = acc"
| "remove_markdown_cells_loop (c # todo) acc =
     (if is_CodeCell c then remove_markdown_cells_loop todo (acc @ [c])
      else remove_markdown_cells_loop todo acc)"

definition remove_markdown_cells :: "notebook \<Rightarrow> notebook" where
  "remove_markdown_cells nb = Notebook (version nb) (remove_markdown_cells_loop (cells nb) [])"

subsection \<open>PyPercentSerializer.to_py_percent\<close>

text \<open>
  What one iteration of the loop appends to \<open>script\<close> for the cell \<open>c\<close>, where \<open>first\<close> is
  \<open>self.notebook.cells[0]\<close>. The test \<open>cell == self.notebook.cells[0]\<close> compares objects.
\<close>

definition cell_block :: "cell \<Rightarrow> cell \<Rightarrow> pystr" where
  "cell_block first c =
     (case c of
        MarkdownCell _ _ src \<Rightarrow>
          (if obj c = obj first
           then asc ''# %% [markdown]'' @ [NL] @ asc ''# '' @ join (asc ''# '') (elems src) @ [NL]
           else [NL] @ asc ''# %% [markdown]'' @ [NL] @ asc ''# '' @ join (asc ''# '') (elems src) @ [NL])
      | CodeCell _ _ src _ \<Rightarrow>
          (if obj c = obj first
           then asc ''# %%'' @ [NL] @ join [] (elems src) @ [NL]
           else [NL] @ asc ''# %%'' @ [NL] @ join [] (elems src) @ [NL]))"

fun to_py_percent_loop :: "cell \<Rightarrow> cell list \<Rightarrow> pystr \<Rightarrow> pystr" where
  "to_py_percent_loop first [] script = script"
| "to_py_percent_loop first (c # todo) script =
     to_py_percent_loop first todo (script @ cell_block first c)"

text \<open>With no cells the loop body never runs, so \<open>cells[0]\<close> is never read.\<close>

definition to_py_percent :: "notebook \<Rightarrow> pystr" where
  "to_py_percent nb =
     (case cells nb of
        [] \<Rightarrow> []
      | first # _ \<Rightarrow> to_py_percent_loop first (cells nb) [])"

subsection \<open>PyPercentLoader.load\<close>

text \<open>
  The inner \<open>while lines[i+1] != '' and i+1 < len(lines)\<close> loop, which is the same in both
  branches. Python evaluates \<open>lines[i+1]\<close> before the bound test, so the read raises
  \<open>IndexError\<close> when \<open>i + 1\<close> is past the last line. The result is the final \<open>i\<close> and
  the collected \<open>source\<close>.
\<close>

function read_body :: "pystr list \<Rightarrow> nat \<Rightarrow> pystr list \<Rightarrow> error + (nat \<times> pystr list)" where
  "read_body lines i src =
     (if length lines \<le> i + 1 then Inl IndexError
      else if lines ! (i + 1) \<noteq> [] \<and> i + 1 < length lines
        then read_body lines (i + 1) (src @ [drop 2 (lines ! (i + 1))])
        else Inr (i, src))"
  by pat_completeness auto
termination
  by (relation "measure (\<lambda>(lines, i, src). length lines - i)") auto

declare read_body.simps [simp del]

lemma read_body_ge: "read_body lines i src = Inr (j, body) \<Longrightarrow> i \<le> j"
proof (induction lines i src rule: read_body.induct)
  case (1 lines i src)
  show ?case
  proof (cases "length lines \<le> i + 1")
    case True
    with "1.prems" show ?thesis
      by (simp add: read_body.simps [of lines i src])
  next
    case False
    show ?thesis
    proof (cases "lines ! (i + 1) \<noteq> []")
      case True
      with False "1.prems"
      have "read_body lines (i + 1) (src @ [drop 2 (lines ! (i + 1))]) = Inr (j, body)"
        by (simp add: read_body.simps [of lines i src])
      with "1.IH" False True have "i + 1 \<le> j" by simp
      then show ?thesis by simp
    next
      case blank: False
      with False "1.prems" show ?thesis
        by (simp add: read_body.simps [of lines i src])
    qed
  qed
qed

text \<open>
  The outer \<open>while i+1 < len(lines)\<close> loop. \<open>cs\<close> is the list \<open>cells\<close> built so far and \<open>a\<close>
  the address the next constructed cell gets.
\<close>

function load_loop :: "pystr list \<Rightarrow> nat \<Rightarrow> cell list \<Rightarrow> addr \<Rightarrow> error + cell list" where
  "load_loop lines i cs a =
     (if i + 1 < length lines then
        if lines ! i = asc ''# %% [markdown]'' then
          (case read_body lines i [] of
             Inl e \<Rightarrow> Inl e
           | Inr (j, src) \<Rightarrow>
               load_loop lines (j + 1 + 1)
                 (cs @ [MarkdownCell a (asc ''id'') (SrcList src)]) (a + 1))
        else if lines ! i = asc ''# %%'' then
          (case read_body lines i [] of
             Inl e \<Rightarrow> Inl e
           | Inr (j, src) \<Rightarrow>
               load_loop lines (j + 1 + 1)
                 (cs @ [CodeCell a (asc ''id'') (SrcList src) (PyStr (asc ''execution_count''))])
                 (a + 1))
        else load_loop lines (i + 1) cs a
      else Inr cs)"
  by pat_completeness auto
termination load_loop
proof (relation "measure (\<lambda>(lines, i, cs, a). length lines - i)")
  show "wf (measure (\<lambda>(lines, i, cs, a). length lines - i))" by simp
qed (auto dest: read_body_ge)

declare load_loop.simps [simp del]

text \<open>
  \<open>load\<close> on the text \<open>data\<close> that \<open>file.read()\<close> returned, for a loader made with version
  \<open>ver\<close>; \<open>a\<close> is the first unused address.
\<close>

definition load :: "pystr \<Rightarrow> pystr \<Rightarrow> addr \<Rightarrow> error + notebook" where
  "load ver data a =
     (case load_loop (py_split data) 0 [] a of
        Inl e \<Rightarrow> Inl e
      | Inr cs \<Rightarrow> Inr (Notebook ver cs))"

subsection \<open>Markdownizer.markdownize\<close>

text \<open>
  The triple-quoted literal assigned to \<open>new_source\<close>. It is not an f-string, so the braces
  and the name between them are ordinary characters; the second and third line of the
  literal start with the sixteen spaces of the source file's indentation.
\<close>

definition new_source :: pystr where
  "new_source =
     asc ''python'' @ [NL] @ asc ''                {cell.source}'' @ [NL] @ asc ''                ''"

fun markdownize_loop :: "cell list \<Rightarrow> cell list \<Rightarrow> addr \<Rightarrow> cell list" where
  "markdownize_loop [] acc a = acc"
| "markdownize_loop (c # todo) acc a =
     (if is_CodeCell c
      then markdownize_loop todo (acc @ [MarkdownCell a (cell_id c) (SrcStr new_source)]) (a + 1)
      else markdownize_loop todo (acc @ [c]) a)"

definition markdownize :: "notebook \<Rightarrow> addr \<Rightarrow> notebook" where
  "markdownize nb a = Notebook (version nb) (markdownize_loop (cells nb) [] a)"

section \<open>notebook_v1\<close>

text \<open>
  The cells of \<open>notebook_v1\<close> copy their attributes from a notebook dictionary:
  \<open>execution_count\<close>, \<open>id\<close>, \<open>source\<close> and \<open>type\<close> (the dictionary's \<open>cell_type\<close>).
\<close>

datatype cell_v1 =
    MarkdownCell_v1 (id_v1: pystr) (source_v1: pysource) (type_v1: pystr)
  | CodeCell_v1 (execution_count_v1: pyval) (id_v1: pystr) (source_v1: pysource) (type_v1: pystr)

datatype notebook_v1 = Notebook_v1 (version_v1: pystr) (cells_v1: "cell_v1 list")

subsection \<open>Serializer.serialize\<close>

text \<open>The dictionaries and lists \<open>serialize\<close> builds; a dictionary keeps its insertion order.\<close>

datatype json = JNone | JInt int | JStr pystr | JList "json list" | JDict "(pystr \<times> json) list"

fun json_of_pyval :: "pyval \<Rightarrow> json" where
  "json_of_pyval PyNone = JNone"
| "json_of_pyval (PyInt n) = JInt n"
| "json_of_pyval (PyStr s) = JStr s"

fun json_of_source :: "pysource \<Rightarrow> json" where
  "json_of_source (SrcList ls) = JList (map JStr ls)"
| "json_of_source (SrcStr s) = JStr s"

fun serialize_loop :: "cell_v1 list \<Rightarrow> json list \<Rightarrow> json list" where
  "serialize_loop [] acc = acc"
| "serialize_loop (CodeCell_v1 ec i src ty # todo) acc =
     serialize_loop todo
       (acc @ [JDict [(asc ''cell_type'', JStr ty), (asc ''execution_count'', json_of_pyval ec),
                      (asc ''id'', JStr i), (asc ''metadata'', JDict []),
                      (asc ''outputs'', JList []), (asc ''source'', json_of_source src)]])"
| "serialize_loop (MarkdownCell_v1 i src ty # todo) acc =
     serialize_loop todo
       (acc @ [JDict [(asc ''cell_type'', JStr ty), (asc ''id'', JStr i),
                      (asc ''metadata'', JDict []), (asc ''source'', json_of_source src)]])"

text \<open>\<open>s[k]\<close> for a string \<open>s\<close> and \<open>k \<ge> 0\<close>: the character at \<open>k\<close>, or \<open>IndexError\<close>.\<close>

definition char_at :: "pystr \<Rightarrow> nat \<Rightarrow> error + nat" where
  "char_at s k = (if k < length s then Inr (s ! k) else Inl IndexError)"

text \<open>
  \<open>int(c)\<close> for a one-character string \<open>c\<close>: the digit's value when \<open>c\<close> is a decimal
  digit, \<open>ValueError\<close> otherwise. Beyond ASCII, which characters are decimal digits is
  decided by the interpreter's Unicode tables; they are the parameter \<open>uni\<close>.
\<close>

definition int_of_char :: "(nat \<Rightarrow> int option) \<Rightarrow> nat \<Rightarrow> error + int" where
  "int_of_char uni c =
     (if 48 \<le> c \<and> c \<le> 57 then Inr (int c - 48)
      else if c < 128 then Inl ValueError
      else (case uni c of Some d \<Rightarrow> Inr d | None \<Rightarrow> Inl ValueError))"

definition serialize :: "(nat \<Rightarrow> int option) \<Rightarrow> notebook_v1 \<Rightarrow> error + (pystr \<times> json) list" where
  "serialize uni nb =
     (let cs = serialize_loop (cells_v1 nb) [] in
      case char_at (version_v1 nb) 0 of
        Inl e \<Rightarrow> Inl e
      | Inr c0 \<Rightarrow>
          (case int_of_char uni c0 of
             Inl e \<Rightarrow> Inl e
           | Inr major \<Rightarrow>
               (case char_at (version_v1 nb) 2 of
                  Inl e \<Rightarrow> Inl e
                | Inr c2 \<Rightarrow>
                    (case int_of_char uni c2 of
                       Inl e \<Rightarrow> Inl e
                     | Inr minor \<Rightarrow>
                         Inr [(asc ''cells'', JList cs), (asc ''metadata'', JDict []),
                              (asc ''nbformat'', JInt major),
                              (asc ''nbformat_minor'', JInt minor)]))))"

subsection \<open>Outliner.outline\<close>

text \<open>The box-drawing characters of the outline, as code points.\<close>

abbreviation box_up_right :: nat where "box_up_right \<equiv> 9492"
abbreviation box_horizontal :: nat where "box_horizontal \<equiv> 9472"
abbreviation triangle_right :: nat where "triangle_right \<equiv> 9654"
abbreviation box_down_right :: nat where "box_down_right \<equiv> 9484"
abbreviation box_vertical :: nat where "box_vertical \<equiv> 9474"

text \<open>\<open>str(n)\<close> for an integer, and what an f-string field renders for \<open>execution_count\<close>.\<close>

function str_nat :: "nat \<Rightarrow> pystr" where
  "str_nat n = (if n < 10 then [48 + n] else str_nat (n div 10) @ [48 + n mod 10])"
  by pat_completeness auto
termination
  by (relation "measure id") auto

declare str_nat.simps [simp del]

definition str_int :: "int \<Rightarrow> pystr" where
  "str_int n = (if n < 0 then asc ''-'' @ str_nat (nat (- n)) else str_nat (nat n))"

fun py_str :: "pyval \<Rightarrow> pystr" where
  "py_str PyNone = asc ''None''"
| "py_str (PyInt n) = str_int n"
| "py_str (PyStr s) = s"

text \<open>
  The loops \<open>for k in range(...)\<close> over the interior lines: \<open>ks\<close> are the indices still to
  visit, all of them within \<open>ls\<close>.
\<close>

fun outline_range :: "pystr list \<Rightarrow> nat list \<Rightarrow> pystr \<Rightarrow> pystr" where
  "outline_range ls [] script = script"
| "outline_range ls (k # ks) script =
     outline_range ls ks (script @ asc ''    '' @ [box_vertical] @ asc ''  '' @ ls ! k)"

text \<open>
  What one iteration of the loop over the cells appends to \<open>script\<close>. With an empty
  \<open>source\<close> the read \<open>cell.source[0]\<close> raises \<open>IndexError\<close>.
\<close>

fun outline_cell :: "cell_v1 \<Rightarrow> error + pystr" where
  "outline_cell (MarkdownCell_v1 i src ty) =
     (let ls = elems src;
          head = [NL] @ [box_up_right, box_horizontal, triangle_right]
                   @ asc '' Markdown cell #'' @ i @ [NL]
      in if length ls > 1
         then Inr (outline_range ls [1 ..< length ls - 1]
                     (head @ asc ''    '' @ [box_down_right] @ asc ''  '' @ ls ! 0)
                   @ asc ''    '' @ [box_up_right] @ asc ''  '' @ last ls)
         else (case ls of
                 [] \<Rightarrow> Inl IndexError
               | l # _ \<Rightarrow> Inr (head @ asc ''    | '' @ l @ [NL])))"
| "outline_cell (CodeCell_v1 ec i src ty) =
     (let ls = elems src;
          head = [NL] @ [box_up_right, box_horizontal, triangle_right]
                   @ asc '' Code cell #'' @ i @ asc '' ('' @ py_str ec @ asc '')'' @ [NL]
      in if length ls > 1
         then Inr (outline_range ls [1 ..< length ls]
                     (head @ asc ''    '' @ [box_down_right] @ asc ''  '' @ ls ! 0)
                   @ asc ''    '' @ [box_up_right] @ asc ''  '' @ last ls)
         else (case ls of
                 [] \<Rightarrow> Inl IndexError
               | l # _ \<Rightarrow> Inr (head @ asc ''    | '' @ l)))"

fun outline_loop :: "cell_v1 list \<Rightarrow> pystr \<Rightarrow> error + pystr" where
  "outline_loop [] script = Inr script"
| "outline_loop (c # todo) script =
     (case outline_cell c of
        Inl e \<Rightarrow> Inl e
      | Inr block \<Rightarrow> outline_loop todo (script @ block))"

definition outline :: "notebook_v1 \<Rightarrow> error + pystr" where
  "outline nb = outline_loop (cells_v1 nb) (asc ''Jupyter Notebook v'' @ version_v1 nb)"

section \<open>The percent-format layout of the specification\<close>

text \<open>
  The layout that section 4.3 of the specification describes, written from its words and
  compared with \<open>to_py_percent\<close> below. A notebook file keeps each source line's newline
  at the end of the line, except on the last line of a cell: \<open>terminated\<close> is such a line,
  \<open>notebook_lines\<close> a non-empty source in that convention, and \<open>line_content\<close> a line
  without its newline.
\<close>

definition terminated :: "pystr \<Rightarrow> bool" where
  "terminated l = (l \<noteq> [] \<and> last l = NL \<and> NL \<notin> set (butlast l))"

fun notebook_lines :: "pystr list \<Rightarrow> bool" where
  "notebook_lines [] = False"
| "notebook_lines [l] = (NL \<notin> set l)"
| "notebook_lines (l # m # ls) = (terminated l \<and> notebook_lines (m # ls))"

fun line_source :: "pysource \<Rightarrow> bool" where
  "line_source (SrcList ls) = notebook_lines ls"
| "line_source (SrcStr s) = False"

definition line_content :: "pystr \<Rightarrow> pystr" where
  "line_content l = (if l \<noteq> [] \<and> last l = NL then butlast l else l)"

text \<open>
  The lines of one cell's block: the header, then each source line, prefixed with
  \<open># \<close> in a markdown cell and unprefixed in a code cell.
\<close>

fun spec_block :: "cell \<Rightarrow> pystr list" where
  "spec_block (MarkdownCell _ _ src) =
     asc ''# %% [markdown]'' # map (\<lambda>l. asc ''# '' @ line_content l) (elems src)"
| "spec_block (CodeCell _ _ src _) = asc ''# %%'' # map line_content (elems src)"

text \<open>
  The lines of the whole text: the blocks in document order, one blank line between
  consecutive blocks, none before the first block and none after the last.
\<close>

fun percent_layout :: "cell list \<Rightarrow> pystr list" where
  "percent_layout [] = []"
| "percent_layout [c] = spec_block c"
| "percent_layout (c # d # cs) = spec_block c @ [[]] @ percent_layout (d # cs)"

text \<open>A text made of the given lines, each ended by a newline.\<close>

definition unlines :: "pystr list \<Rightarrow> pystr" where
  "unlines ls = concat (map (\<lambda>l. l @ [NL]) ls)"

section \<open>Example notebooks\<close>

text \<open>A notebook with one code cell.\<close>

definition print_nb :: notebook where
  "print_nb =
     Notebook (asc ''4.5'') [CodeCell 0 (asc ''b777420a'') (SrcList [asc ''print(1)'']) (PyInt 1)]"

text \<open>
  The two-cell notebook of the docstrings, with the source lines as the \<open>notebook_v2\<close>
  docstrings write them (no newline at the end of a line) and as a notebook file holds
  them (\<open>notebook_v1\<close>'s docstrings: every line but the last ends with its newline).
\<close>

definition hello_plain :: notebook where
  "hello_plain = Notebook (asc ''4.5'')
     [MarkdownCell 0 (asc ''a9541506'')
        (SrcList [asc ''Hello world!'', asc ''============'', asc ''Print `Hello world!`:'']),
      CodeCell 1 (asc ''b777420a'') (SrcList [asc ''print(\"Hello world!\")'']) (PyInt 1)]"

definition hello_terminated :: notebook where
  "hello_terminated = Notebook (asc ''4.5'')
     [MarkdownCell 0 (asc ''a9541506'')
        (SrcList [asc ''Hello world!\<newline>'', asc ''============\<newline>'',
                  asc ''Print `Hello world!`:'']),
      CodeCell 1 (asc ''b777420a'') (SrcList [asc ''print(\"Hello world!\")'']) (PyInt 1)]"

definition hello_world_plain :: notebook_v1 where
  "hello_world_plain = Notebook_v1 (asc ''4.5'')
     [MarkdownCell_v1 (asc ''a9541506'')
        (SrcList [asc ''Hello world!'', asc ''============'', asc ''Print `Hello world!`:''])
        (asc ''markdown''),
      CodeCell_v1 (PyInt 1) (asc ''b777420a'') (SrcList [asc ''print(\"Hello world!\")''])
        (asc ''code'')]"

definition hello_world_terminated :: notebook_v1 where
  "hello_world_terminated = Notebook_v1 (asc ''4.5'')
     [MarkdownCell_v1 (asc ''a9541506'')
        (SrcList [asc ''Hello world!\<newline>'', asc ''============\<newline>'',
                  asc ''Print `Hello world!`:''])
        (asc ''markdown''),
      CodeCell_v1 (PyInt 1) (asc ''b777420a'') (SrcList [asc ''print(\"Hello world!\")''])
        (asc ''code'')]"

text \<open>
  The outline of that notebook as section 4.4 of the specification and the docstring of
  \<open>Outliner\<close> lay it out: seven lines, the source lines indented by four spaces.
\<close>

definition hello_world_layout :: pystr where
  "hello_world_layout = join [NL]
     [asc ''Jupyter Notebook v4.5'',
      [box_up_right, box_horizontal, triangle_right] @ asc '' Markdown cell #a9541506'',
      asc ''    '' @ [box_down_right] @ asc ''  Hello world!'',
      asc ''    '' @ [box_vertical] @ asc ''  ============'',
      asc ''    '' @ [box_up_right] @ asc ''  Print `Hello world!`:'',
      [box_up_right, box_horizontal, triangle_right] @ asc '' Code cell #b777420a (1)'',
      asc ''    | print(\"Hello world!\")'']"

section \<open>Evaluation and basic facts\<close>

lemmas load_eval = asc_def py_split_def load_def load_loop.simps read_body.simps

lemmas to_py_percent_eval = to_py_percent_def cell_block_def

lemmas outline_eval = asc_def outline_def str_int_def str_nat.simps

lemma split_from_nonempty: "split_from cur s \<noteq> []"
  by (induction s arbitrary: cur) simp_all

lemma split_from_line:
  "NL \<notin> set l \<Longrightarrow> split_from cur (l @ NL # rest) = (cur @ l) # split_from [] rest"
  by (induction l arbitrary: cur) simp_all

lemma py_split_line: "NL \<notin> set l \<Longrightarrow> py_split (l @ NL # data) = l # py_split data"
  by (simp add: py_split_def split_from_line)

section \<open>Round trip through the percent format\<close>

text \<open>
  Claim C1 says that parsing the serialization of a notebook gives back its cells with
  the same source lines, or equivalently that serializing the parsed notebook gives the
  first text again. The code does not do this for a code cell: \<open>print_nb\<close> serializes to
  the header and the line \<open>print(1)\<close>; \<open>load\<close> drops the first two characters of that
  line, so the parsed cell's source is \<open>int(1)\<close> and its serialization is another text.
\<close>

theorem roundtrip_code_cell_changes_source:
  "to_py_percent print_nb = asc ''# %%\<newline>print(1)\<newline>''
   \<and> load (asc ''4.5'') (to_py_percent print_nb) 1
       = Inr (Notebook (asc ''4.5'')
               [CodeCell 1 (asc ''id'') (SrcList [asc ''int(1)''])
                  (PyStr (asc ''execution_count''))])
   \<and> to_py_percent (Notebook (asc ''4.5'')
               [CodeCell 1 (asc ''id'') (SrcList [asc ''int(1)''])
                  (PyStr (asc ''execution_count''))])
       = asc ''# %%\<newline>int(1)\<newline>''"
  by (simp add: print_nb_def load_eval to_py_percent_eval)

section \<open>Body lines of a code block\<close>

text \<open>
  Claim C2 says that the lines of a code block are taken verbatim. The code applies
  \<open>[2:]\<close> to them as it does to markdown lines: from the text with the header \<open># %%\<close>
  and the line \<open>x = 1\<close> the parser builds a code cell whose source line is \<open>= 1\<close>.
\<close>

theorem load_strips_code_lines:
  "load (asc ''4.5'') (asc ''# %%\<newline>x = 1\<newline>'') 0
   = Inr (Notebook (asc ''4.5'')
           [CodeCell 0 (asc ''id'') (SrcList [asc ''= 1'']) (PyStr (asc ''execution_count''))])"
  by (simp add: load_eval)

section \<open>Lines where a header is expected\<close>

text \<open>
  Claim C3 as stated: a non-blank line that is no header, at a place where a header is
  expected, makes the parse fail. It does not: the text with the line \<open>stray text\<close>
  before a code header parses to a notebook with that one code cell.
\<close>

theorem load_accepts_stray_line:
  "load (asc ''4.5'') (asc ''stray text\<newline># %%\<newline>'') 0
   = Inr (Notebook (asc ''4.5'')
           [CodeCell 0 (asc ''id'') (SrcList []) (PyStr (asc ''execution_count''))])"
  by (simp add: load_eval)

lemma read_body_shift:
  "read_body (l # ls) (Suc i) src =
     (case read_body ls i src of Inl e \<Rightarrow> Inl e | Inr (j, b) \<Rightarrow> Inr (Suc j, b))"
proof (induction ls i src rule: read_body.induct)
  case (1 ls i src)
  show ?case
  proof (cases "length ls \<le> i + 1")
    case True
    then show ?thesis
      by (simp add: read_body.simps [of ls i src] read_body.simps [of "l # ls" "Suc i" src])
  next
    case False
    show ?thesis
    proof (cases "ls ! (i + 1) \<noteq> []")
      case True
      with False "1.IH" show ?thesis
        by (simp add: read_body.simps [of ls i src] read_body.simps [of "l # ls" "Suc i" src])
    next
      case blank: False
      with False show ?thesis
        by (simp add: read_body.simps [of ls i src] read_body.simps [of "l # ls" "Suc i" src])
    qed
  qed
qed

lemma load_loop_shift: "load_loop (l # ls) (Suc i) cs a = load_loop ls i cs a"
proof (induction ls i cs a rule: load_loop.induct)
  case (1 ls i cs a)
  note unfold = load_loop.simps [of ls i cs a] load_loop.simps [of "l # ls" "Suc i" cs a]
  show ?case
  proof (cases "i + 1 < length ls")
    case False
    then show ?thesis by (simp add: unfold)
  next
    case True
    show ?thesis
    proof (cases "ls ! i = asc ''# %% [markdown]''")
      case md: True
      show ?thesis
      proof (cases "read_body ls i []")
        case (Inl e)
        with True md show ?thesis by (simp add: unfold read_body_shift)
      next
        case (Inr r)
        obtain j body where r: "r = (j, body)" by (cases r)
        from "1.IH"(1) [OF True md] Inr r True md show ?thesis
          by (simp add: unfold read_body_shift)
      qed
    next
      case nomd: False
      show ?thesis
      proof (cases "ls ! i = asc ''# %%''")
        case code: True
        show ?thesis
        proof (cases "read_body ls i []")
          case (Inl e)
          with True nomd code show ?thesis by (simp add: unfold read_body_shift)
        next
          case (Inr r)
          obtain j body where r: "r = (j, body)" by (cases r)
          from "1.IH"(2) [OF True nomd code] Inr r True nomd code show ?thesis
            by (simp add: unfold read_body_shift)
        qed
      next
        case other: False
        from "1.IH"(3) [OF True nomd other] True nomd other show ?thesis
          by (simp add: unfold)
      qed
    qed
  qed
qed

text \<open>
  Claim C3 as amended. The parser has no format error: a first line that is neither
  \<open># %% [markdown]\<close> nor \<open># %%\<close> is skipped, and the text parses exactly as the text
  after that line does (to the same notebook, or to the same error).
\<close>

theorem load_skips_unrecognised_line:
  assumes "NL \<notin> set l" and "l \<noteq> asc ''# %% [markdown]''" and "l \<noteq> asc ''# %%''"
  shows "load ver (l @ [NL] @ data) a = load ver data a"
proof -
  obtain x xs where ls: "py_split data = x # xs"
    using split_from_nonempty [of "[]" data] by (cases "py_split data") (auto simp: py_split_def)
  have "load_loop (l # py_split data) 0 [] a = load_loop (l # py_split data) (Suc 0) [] a"
    using assms(2,3) ls by (simp add: load_loop.simps [of "l # x # xs" 0 "[]" a])
  also have "\<dots> = load_loop (py_split data) 0 [] a"
    by (rule load_loop_shift)
  finally show ?thesis
    using assms(1) by (simp add: load_def py_split_line)
qed

text \<open>
  The amended claim C3 at the line \<open>stray text\<close> before the text of one code block: the
  three hypotheses hold there, and both texts parse to the same result.
\<close>

theorem load_skips_unrecognised_line_witness:
  "NL \<notin> set (asc ''stray text'')
   \<and> asc ''stray text'' \<noteq> asc ''# %% [markdown]''
   \<and> asc ''stray text'' \<noteq> asc ''# %%''
   \<and> load (asc ''4.5'') (asc ''stray text'' @ [NL] @ asc ''# %%\<newline>print(1)\<newline>'') 0
       = load (asc ''4.5'') (asc ''# %%\<newline>print(1)\<newline>'') 0"
proof -
  have h1: "NL \<notin> set (asc ''stray text'')" by (simp add: asc_def)
  have h2: "asc ''stray text'' \<noteq> asc ''# %% [markdown]''" by (simp add: asc_def)
  have h3: "asc ''stray text'' \<noteq> asc ''# %%''" by (simp add: asc_def)
  from h1 h2 h3 load_skips_unrecognised_line [OF h1 h2 h3] show ?thesis by blast
qed

section \<open>End of input inside a block\<close>

text \<open>
  Claim C4 says that a block still open at the end of the input is closed there without
  an error, with or without a final newline. Without the final newline the inner loop
  reads \<open>lines[i+1]\<close> one past the last line before it tests \<open>i+1 < len(lines)\<close>: the
  text with the header \<open># %%\<close> and the line \<open>x = 1\<close> raises \<open>IndexError\<close>.
\<close>

theorem load_open_block_raises:
  "load (asc ''4.5'') (asc ''# %%\<newline>x = 1'') 0 = Inl IndexError"
  by (simp add: load_eval)

section \<open>The layout of the percent format\<close>

text \<open>
  Claim C5 as stated: for every notebook the serialization has each markdown source
  line on a line of its own. For the two-cell notebook with the source lines
  \<open>Hello world!\<close>, \<open>============\<close> and \<open>Print `Hello world!`:\<close> the three lines come out
  on one line of text, since \<open>join\<close> puts only \<open># \<close> between them: the text has five
  lines where the layout has seven.
\<close>

theorem to_py_percent_joins_plain_lines:
  "py_split (to_py_percent hello_plain)
     = [asc ''# %% [markdown]'',
        asc ''# Hello world!# ============# Print `Hello world!`:'',
        [],
        asc ''# %%'',
        asc ''print(\"Hello world!\")'',
        []]
   \<and> py_split (to_py_percent hello_plain) \<noteq> percent_layout (cells hello_plain) @ [[]]"
  by (simp add: hello_plain_def to_py_percent_eval asc_def py_split_def line_content_def)

lemma to_py_percent_loop_concat:
  "to_py_percent_loop f todo script = script @ concat (map (cell_block f) todo)"
  by (induction todo arbitrary: script) simp_all

lemma terminated_content: "terminated l \<Longrightarrow> l = line_content l @ [NL]"
proof -
  assume "terminated l"
  then have "l \<noteq> []" and "last l = NL" by (simp_all add: terminated_def)
  then show ?thesis
    using append_butlast_last_id [of l] by (simp add: line_content_def)
qed

lemma unterminated_content: "NL \<notin> set l \<Longrightarrow> line_content l = l"
  by (cases l rule: rev_cases) (auto simp: line_content_def)

lemma join_markdown:
  "notebook_lines ls \<Longrightarrow>
   asc ''# '' @ join (asc ''# '') ls @ [NL] = unlines (map (\<lambda>l. asc ''# '' @ line_content l) ls)"
proof (induction ls rule: notebook_lines.induct)
  case 1
  then show ?case by simp
next
  case (2 l)
  then show ?case by (simp add: unlines_def unterminated_content)
next
  case (3 l m ls)
  from "3.prems" have t: "terminated l" and r: "notebook_lines (m # ls)" by simp_all
  have "asc ''# '' @ join (asc ''# '') (l # m # ls) @ [NL]
      = (asc ''# '' @ l) @ (asc ''# '' @ join (asc ''# '') (m # ls) @ [NL])"
    by simp
  also have "\<dots> = (asc ''# '' @ line_content l @ [NL])
                    @ unlines (map (\<lambda>l. asc ''# '' @ line_content l) (m # ls))"
    using "3.IH" [OF r] terminated_content [OF t] by simp
  finally show ?case by (simp add: unlines_def)
qed

lemma join_code:
  "notebook_lines ls \<Longrightarrow> join [] ls @ [NL] = unlines (map line_content ls)"
proof (induction ls rule: notebook_lines.induct)
  case 1
  then show ?case by simp
next
  case (2 l)
  then show ?case by (simp add: unlines_def unterminated_content)
next
  case (3 l m ls)
  from "3.prems" have t: "terminated l" and r: "notebook_lines (m # ls)" by simp_all
  have "join [] (l # m # ls) @ [NL] = l @ (join [] (m # ls) @ [NL])"
    by simp
  also have "\<dots> = (line_content l @ [NL]) @ unlines (map line_content (m # ls))"
    using "3.IH" [OF r] terminated_content [OF t] by simp
  finally show ?case by (simp add: unlines_def)
qed

lemma cell_block_layout:
  assumes "line_source (source c)"
  shows "cell_block f c = (if obj c = obj f then [] else [NL]) @ unlines (spec_block c)"
proof (cases c)
  case (MarkdownCell a i src)
  with assms obtain ls where s: "src = SrcList ls" and n: "notebook_lines ls"
    by (cases src) simp_all
  have "unlines (spec_block c)
      = asc ''# %% [markdown]'' @ [NL] @ unlines (map (\<lambda>l. asc ''# '' @ line_content l) ls)"
    by (simp add: MarkdownCell s unlines_def)
  also have "\<dots> = asc ''# %% [markdown]'' @ [NL] @ asc ''# '' @ join (asc ''# '') ls @ [NL]"
    by (simp only: join_markdown [OF n])
  finally show ?thesis by (simp add: cell_block_def MarkdownCell s)
next
  case (CodeCell a i src ec)
  with assms obtain ls where s: "src = SrcList ls" and n: "notebook_lines ls"
    by (cases src) simp_all
  have "unlines (spec_block c) = asc ''# %%'' @ [NL] @ unlines (map line_content ls)"
    by (simp add: CodeCell s unlines_def)
  also have "\<dots> = asc ''# %%'' @ [NL] @ join [] ls @ [NL]"
    by (simp only: join_code [OF n])
  finally show ?thesis by (simp add: cell_block_def CodeCell s)
qed

lemma later_blocks:
  "\<forall>c \<in> set cs. obj c \<noteq> obj f \<and> line_source (source c) \<Longrightarrow>
   concat (map (cell_block f) cs) = concat (map (\<lambda>c. NL # unlines (spec_block c)) cs)"
  by (induction cs) (simp_all add: cell_block_layout)

lemma unlines_percent_layout:
  "unlines (percent_layout (c # cs))
   = unlines (spec_block c) @ concat (map (\<lambda>c. NL # unlines (spec_block c)) cs)"
proof (induction cs arbitrary: c)
  case Nil
  then show ?case by simp
next
  case (Cons d cs)
  have "unlines (percent_layout (c # d # cs))
      = unlines (spec_block c) @ unlines [[]] @ unlines (percent_layout (d # cs))"
    by (simp add: unlines_def)
  also have "unlines [[]] = [NL]" by (simp add: unlines_def)
  finally show ?case by (simp add: Cons.IH)
qed

lemma split_from_unlines:
  "\<forall>l \<in> set ls. NL \<notin> set l \<Longrightarrow> split_from [] (unlines ls) = ls @ [[]]"
proof (induction ls)
  case Nil
  then show ?case by (simp add: unlines_def)
next
  case (Cons l ls)
  then have l: "NL \<notin> set l" and r: "split_from [] (unlines ls) = ls @ [[]]" by simp_all
  have "unlines (l # ls) = l @ NL # unlines ls" by (simp add: unlines_def)
  with split_from_line [OF l, of "[]" "unlines ls"] r show ?case by simp
qed

lemma line_content_clean:
  "notebook_lines ls \<Longrightarrow> l \<in> set ls \<Longrightarrow> NL \<notin> set (line_content l)"
proof (induction ls rule: notebook_lines.induct)
  case 1
  then show ?case by simp
next
  case (2 m)
  then show ?case by (simp add: unterminated_content)
next
  case (3 k m ls)
  then show ?case by (auto simp: terminated_def line_content_def)
qed

lemma spec_block_clean:
  assumes "line_source (source c)" and "l \<in> set (spec_block c)"
  shows "NL \<notin> set l"
proof (cases c)
  case (MarkdownCell a i src)
  with assms(1) obtain ls where s: "src = SrcList ls" and n: "notebook_lines ls"
    by (cases src) simp_all
  from assms(2) show ?thesis
    using line_content_clean [OF n] by (auto simp: MarkdownCell s asc_def)
next
  case (CodeCell a i src ec)
  with assms(1) obtain ls where s: "src = SrcList ls" and n: "notebook_lines ls"
    by (cases src) simp_all
  from assms(2) show ?thesis
    using line_content_clean [OF n] by (auto simp: CodeCell s asc_def)
qed

lemma percent_layout_clean:
  "\<forall>c \<in> set cs. line_source (source c) \<Longrightarrow> l \<in> set (percent_layout cs) \<Longrightarrow> NL \<notin> set l"
proof (induction cs rule: percent_layout.induct)
  case 1
  then show ?case by simp
next
  case (2 c)
  then show ?case using spec_block_clean [of c l] by simp
next
  case (3 c d cs)
  then show ?case using spec_block_clean [of c l] by auto
qed

text \<open>
  Claim C5 as amended. For every notebook whose cells are pairwise distinct objects and
  whose every source is a non-empty list of lines in the notebook convention (each line
  but the last ends with its newline, and there is no other newline), the serialization
  splits at the newlines into exactly the lines of the layout, followed by the empty
  piece after the final newline: per cell the header and the source lines, prefixed with
  \<open># \<close> in a markdown cell and unprefixed in a code cell, one blank line between
  consecutive blocks, none before the first header and none after the last line.
\<close>

theorem to_py_percent_layout:
  assumes "distinct (map obj (cells nb))"
    and "list_all (\<lambda>c. line_source (source c)) (cells nb)"
  shows "py_split (to_py_percent nb) = percent_layout (cells nb) @ [[]]"
proof (cases "cells nb")
  case Nil
  then show ?thesis by (simp add: to_py_percent_def py_split_def)
next
  case (Cons f cs)
  from assms(2) have all: "\<forall>c \<in> set (cells nb). line_source (source c)"
    by (simp add: list_all_iff)
  from all Cons have first: "line_source (source f)"
    by simp
  from assms(1) Cons have "obj f \<notin> obj ` set cs"
    by simp
  then have "\<forall>c \<in> set cs. obj c \<noteq> obj f"
    by (metis imageI)
  with all Cons have later: "\<forall>c \<in> set cs. obj c \<noteq> obj f \<and> line_source (source c)"
    by simp
  have "to_py_percent nb = cell_block f f @ concat (map (cell_block f) cs)"
    by (simp add: to_py_percent_def Cons to_py_percent_loop_concat)
  also have "\<dots> = unlines (spec_block f) @ concat (map (\<lambda>c. NL # unlines (spec_block c)) cs)"
    by (simp add: cell_block_layout [OF first] later_blocks [OF later])
  also have "\<dots> = unlines (percent_layout (cells nb))"
    by (simp only: Cons unlines_percent_layout)
  finally have "to_py_percent nb = unlines (percent_layout (cells nb))" .
  moreover have "\<forall>l \<in> set (percent_layout (cells nb)). NL \<notin> set l"
    using percent_layout_clean [OF all] by blast
  ultimately show ?thesis
    by (simp add: py_split_def split_from_unlines)
qed

text \<open>
  The amended claim C5 at the two-cell notebook with its lines in the notebook
  convention: both hypotheses hold, and the text is the markdown header, three prefixed
  lines, a blank line, the code header and the unprefixed code line.
\<close>

theorem to_py_percent_layout_witness:
  "distinct (map obj (cells hello_terminated))
   \<and> list_all (\<lambda>c. line_source (source c)) (cells hello_terminated)
   \<and> py_split (to_py_percent hello_terminated)
       = [asc ''# %% [markdown]'',
          asc ''# Hello world!'',
          asc ''# ============'',
          asc ''# Print `Hello world!`:'',
          [],
          asc ''# %%'',
          asc ''print(\"Hello world!\")'',
          []]"
proof -
  have h1: "distinct (map obj (cells hello_terminated))"
    by (simp add: hello_terminated_def)
  have h2: "list_all (\<lambda>c. line_source (source c)) (cells hello_terminated)"
    by (simp add: hello_terminated_def terminated_def asc_def)
  have "percent_layout (cells hello_terminated)
      = [asc ''# %% [markdown]'', asc ''# Hello world!'', asc ''# ============'',
         asc ''# Print `Hello world!`:'', [], asc ''# %%'', asc ''print(\"Hello world!\")'']"
    by (simp add: hello_terminated_def line_content_def asc_def)
  with h1 h2 to_py_percent_layout [OF h1 h2] show ?thesis by simp
qed

text \<open>
  The two other hypotheses of the amended claim are needed as well. With an empty source
  the body is still one line (empty for a code cell), so two blank lines separate the
  blocks; and a cell that is the same object as the first cell gets no blank line
  before its header.
\<close>

lemma to_py_percent_empty_source:
  "py_split (to_py_percent (Notebook (asc ''4.5'')
       [CodeCell 0 (asc ''c0'') (SrcList []) PyNone,
        CodeCell 1 (asc ''c1'') (SrcList [asc ''x'']) PyNone]))
   = [asc ''# %%'', [], [], asc ''# %%'', asc ''x'', []]"
  by (simp add: to_py_percent_eval asc_def py_split_def)

lemma to_py_percent_same_object:
  "py_split (to_py_percent (Notebook (asc ''4.5'')
       [CodeCell 0 (asc ''c0'') (SrcList [asc ''x'']) PyNone,
        CodeCell 0 (asc ''c0'') (SrcList [asc ''x'']) PyNone]))
   = [asc ''# %%'', asc ''x'', asc ''# %%'', asc ''x'', []]"
  by (simp add: to_py_percent_eval asc_def py_split_def)

section \<open>Placeholders of parsed cells\<close>

text \<open>
  Claim C6 says that the execution count of a parsed code cell is an integer or the
  null sentinel, never a string. The parser passes the string \<open>execution_count\<close> to the
  constructor: the text of one empty code block parses to a code cell whose
  \<open>execution_count\<close> is that string.
\<close>

theorem load_execution_count_is_string:
  "load (asc ''4.5'') (asc ''# %%\<newline>'') 0
   = Inr (Notebook (asc ''4.5'')
           [CodeCell 0 (asc ''id'') (SrcList []) (PyStr (asc ''execution_count''))])"
  by (simp add: load_eval)

section \<open>Serializer\<close>

text \<open>
  Claim C7 says that \<open>serialize\<close> splits the version at the dot, also when a component
  has several digits. The code converts the characters at positions 0 and 2: for the
  version \<open>4.10\<close> the minor number comes out as 1, and for \<open>10.23\<close> the character at
  position 2 is the dot and \<open>int\<close> raises \<open>ValueError\<close>.
\<close>

theorem serialize_multi_digit_version:
  "serialize uni (Notebook_v1 (asc ''4.10'') [])
     = Inr [(asc ''cells'', JList []), (asc ''metadata'', JDict []),
            (asc ''nbformat'', JInt 4), (asc ''nbformat_minor'', JInt 1)]
   \<and> serialize uni (Notebook_v1 (asc ''10.23'') []) = Inl ValueError"
  by (simp add: serialize_def char_at_def int_of_char_def asc_def)

section \<open>Codify-to-markdown\<close>

text \<open>
  Claim C8 says that \<open>markdownize\<close> replaces a code cell by a markdown cell whose source
  wraps the cell's source lines in a fenced block. The literal in the code is not an
  f-string and has no fence: for \<open>print_nb\<close> the new cell's source is the fixed string
  with the characters \<open>{cell.source}\<close> in it, and the line \<open>print(1)\<close> is gone.
\<close>

theorem markdownize_drops_source:
  "markdownize print_nb 1
   = Notebook (asc ''4.5'')
       [MarkdownCell 1 (asc ''b777420a'')
          (SrcStr (asc ''python\<newline>                {cell.source}\<newline>                ''))]"
  by (simp add: markdownize_def print_nb_def new_source_def asc_def)

section \<open>Strip-markdown\<close>

lemma remove_markdown_cells_loop_filter:
  "remove_markdown_cells_loop todo acc = acc @ filter is_CodeCell todo"
  by (induction todo arbitrary: acc) simp_all

lemma remove_markdown_cells_cells:
  "cells (remove_markdown_cells nb) = filter is_CodeCell (cells nb)"
  by (simp add: remove_markdown_cells_def remove_markdown_cells_loop_filter)

text \<open>
  Claim C9. For every notebook, \<open>remove_markdown_cells\<close> returns a notebook with the
  input's version whose cells are exactly the code cells of the input in their original
  order; no markdown cell is left, and applying the transform twice gives the same
  notebook as applying it once.
\<close>

theorem remove_markdown_cells_correct:
  "version (remove_markdown_cells nb) = version nb
   \<and> cells (remove_markdown_cells nb) = filter is_CodeCell (cells nb)
   \<and> filter is_MarkdownCell (cells (remove_markdown_cells nb)) = []
   \<and> remove_markdown_cells (remove_markdown_cells nb) = remove_markdown_cells nb"
proof -
  have v: "version (remove_markdown_cells nb) = version nb"
    by (simp add: remove_markdown_cells_def)
  have c: "cells (remove_markdown_cells nb) = filter is_CodeCell (cells nb)"
    by (rule remove_markdown_cells_cells)
  have m: "filter is_MarkdownCell (filter is_CodeCell (cells nb)) = []"
    by (induction "cells nb") (auto simp: filter_empty_conv cell.disc_eq_case split: cell.splits)
  have i: "remove_markdown_cells (remove_markdown_cells nb) = remove_markdown_cells nb"
    by (simp add: remove_markdown_cells_def remove_markdown_cells_loop_filter)
  from v c m i show ?thesis by simp
qed

section \<open>Outline of the two-cell notebook\<close>

text \<open>
  Claim C10 as stated: for the two-cell notebook with the source lines \<open>Hello world!\<close>,
  \<open>============\<close> and \<open>Print `Hello world!`:\<close>, \<open>outline\<close> puts the three lines on
  separate lines. It appends each line as it is, so without newlines in the lines the
  three come out on one line of the outline, which is not the layout.
\<close>

theorem outline_plain_lines_on_one_line:
  "outline hello_world_plain = Inr (join [NL]
     [asc ''Jupyter Notebook v4.5'',
      [box_up_right, box_horizontal, triangle_right] @ asc '' Markdown cell #a9541506'',
      asc ''    '' @ [box_down_right] @ asc ''  Hello world!''
        @ asc ''    '' @ [box_vertical] @ asc ''  ============''
        @ asc ''    '' @ [box_up_right] @ asc ''  Print `Hello world!`:'',
      [box_up_right, box_horizontal, triangle_right] @ asc '' Code cell #b777420a (1)'',
      asc ''    | print(\"Hello world!\")''])
   \<and> outline hello_world_plain \<noteq> Inr hello_world_layout"
  by (simp add: hello_world_plain_def hello_world_layout_def outline_eval)

text \<open>
  Claim C10 as amended. For the same two-cell notebook with its markdown lines in the
  notebook convention (\<open>Hello world!\<close> and \<open>============\<close> each followed by a newline),
  \<open>outline\<close> returns exactly the layout: the title line, the markdown cell's line and its
  three source lines on lines of their own, the code cell's line with the count 1, and
  its one source line after a bar.
\<close>

theorem outline_hello_world:
  "outline hello_world_terminated = Inr hello_world_layout"
  by (simp add: hello_world_terminated_def hello_world_layout_def outline_eval)

end
